theory Spec2Isabelle
  imports Main
begin

section \<open>Python strings\<close>

text \<open>
  A Python \<open>str\<close> is a sequence of Unicode code points, modelled as a list of
  naturals. The whitespace class is the complete one of \<open>str.isspace\<close>. Case
  mapping, the word class \<open>\w\<close> and the digit class \<open>\d\<close> are written out for
  ASCII and for the Cyrillic block U+0400..U+045F, the two alphabets of the corpus;
  other code points are treated as caseless symbols.
\<close>

type_synonym pystr = "nat list"

definition ascii :: "string \<Rightarrow> pystr" where
  "ascii s = map of_char s"

definition py_isspace :: "nat \<Rightarrow> bool" where
  "py_isspace c \<longleftrightarrow>
     (9 \<le> c \<and> c \<le> 13) \<or> (28 \<le> c \<and> c \<le> 32) \<or> c = 133 \<or> c = 160 \<or> c = 5760 \<or>
     (8192 \<le> c \<and> c \<le> 8202) \<or> c = 8232 \<or> c = 8233 \<or> c = 8239 \<or> c = 8287 \<or> c = 12288"

definition py_lower_char :: "nat \<Rightarrow> nat" where
  "py_lower_char c =
     (if 65 \<le> c \<and> c \<le> 90 then c + 32
      else if 1040 \<le> c \<and> c \<le> 1071 then c + 32
      else if 1024 \<le> c \<and> c \<le> 1039 then c + 80
      else c)"

definition py_lower :: "pystr \<Rightarrow> pystr" where
  "py_lower s = map py_lower_char s"

definition py_isupper :: "nat \<Rightarrow> bool" where
  "py_isupper c \<longleftrightarrow> (65 \<le> c \<and> c \<le> 90) \<or> (1024 \<le> c \<and> c \<le> 1071)"

definition py_strip :: "pystr \<Rightarrow> pystr" where
  "py_strip s = rev (dropWhile py_isspace (rev (dropWhile py_isspace s)))"

text \<open>\<open>str.split()\<close> without arguments: the maximal runs of non-whitespace.\<close>

fun split_from :: "pystr \<Rightarrow> pystr \<Rightarrow> pystr list" where
  "split_from cur [] = (if cur = [] then [] else [cur])"
| "split_from cur (c # cs) =
     (if py_isspace c then (if cur = [] then split_from [] cs else cur # split_from [] cs)
      else split_from (cur @ [c]) cs)"

definition py_split :: "pystr \<Rightarrow> pystr list" where
  "py_split s = split_from [] s"

fun py_join :: "pystr \<Rightarrow> pystr list \<Rightarrow> pystr" where
  "py_join sep [] = []"
| "py_join sep [w] = w"
| "py_join sep (w # ws) = w @ sep @ py_join sep ws"

text \<open>\<open>' '.join(text.split())\<close>, the whitespace normalisation of the validator.\<close>

definition normalize_ws :: "pystr \<Rightarrow> pystr" where
  "normalize_ws s = py_join [32] (py_split s)"

section \<open>Regular expressions of the validator\<close>

text \<open>
  \<open>re.search\<close> is used only for its truth value, so a pattern is modelled by the
  set of positions at which some match starts. A matcher takes the character
  before the current position (for \<open>\b\<close>) and the remaining text; patterns are built
  from combinators that take the rest of the pattern as a continuation.
\<close>

type_synonym matcher = "nat option \<Rightarrow> pystr \<Rightarrow> bool"

definition re_word :: "nat \<Rightarrow> bool" where
  "re_word c \<longleftrightarrow> (48 \<le> c \<and> c \<le> 57) \<or> (65 \<le> c \<and> c \<le> 90) \<or> c = 95 \<or>
     (97 \<le> c \<and> c \<le> 122) \<or> (1024 \<le> c \<and> c \<le> 1119)"

definition re_digit :: "nat \<Rightarrow> bool" where
  "re_digit c \<longleftrightarrow> 48 \<le> c \<and> c \<le> 57"

definition re_upper_az :: "nat \<Rightarrow> bool" where
  "re_upper_az c \<longleftrightarrow> 65 \<le> c \<and> c \<le> 90"

definition re_lower_az :: "nat \<Rightarrow> bool" where
  "re_lower_az c \<longleftrightarrow> 97 \<le> c \<and> c \<le> 122"

definition re_dot :: "nat \<Rightarrow> bool" where
  "re_dot c \<longleftrightarrow> c \<noteq> 10"

text \<open>\<open>[IVXLCDM]\<close> under \<open>re.IGNORECASE\<close>.\<close>

definition re_roman :: "nat \<Rightarrow> bool" where
  "re_roman c \<longleftrightarrow> py_lower_char c \<in> set (ascii ''ivxlcdm'')"

text \<open>The class \<open>["\<guillemotleft>\<guillemotright>""]\<close>: the ASCII double quote and the two guillemets.\<close>

definition re_quote :: "nat \<Rightarrow> bool" where
  "re_quote c \<longleftrightarrow> c = 34 \<or> c = 171 \<or> c = 187"

definition word_opt :: "nat option \<Rightarrow> bool" where
  "word_opt p = (case p of None \<Rightarrow> False | Some c \<Rightarrow> re_word c)"

definition m_end :: matcher where
  "m_end prev rest = True"

definition m_b :: "matcher \<Rightarrow> matcher" where
  "m_b k prev rest \<longleftrightarrow>
     word_opt prev \<noteq> word_opt (case rest of [] \<Rightarrow> None | c # _ \<Rightarrow> Some c) \<and> k prev rest"

definition m_cls :: "(nat \<Rightarrow> bool) \<Rightarrow> matcher \<Rightarrow> matcher" where
  "m_cls P k prev rest = (case rest of [] \<Rightarrow> False | c # cs \<Rightarrow> P c \<and> k (Some c) cs)"

fun m_star :: "(nat \<Rightarrow> bool) \<Rightarrow> matcher \<Rightarrow> matcher" where
  "m_star P k prev [] = k prev []"
| "m_star P k prev (c # cs) = (k prev (c # cs) \<or> (P c \<and> m_star P k (Some c) cs))"

definition m_plus :: "(nat \<Rightarrow> bool) \<Rightarrow> matcher \<Rightarrow> matcher" where
  "m_plus P k = m_cls P (m_star P k)"

definition m_opt :: "(nat \<Rightarrow> bool) \<Rightarrow> matcher \<Rightarrow> matcher" where
  "m_opt P k prev rest \<longleftrightarrow> m_cls P k prev rest \<or> k prev rest"

text \<open>A literal under \<open>re.IGNORECASE\<close>.\<close>

fun m_lit_ic :: "pystr \<Rightarrow> matcher \<Rightarrow> matcher" where
  "m_lit_ic [] k prev rest = k prev rest"
| "m_lit_ic (p # ps) k prev [] = False"
| "m_lit_ic (p # ps) k prev (c # cs) =
     (py_lower_char c = py_lower_char p \<and> m_lit_ic ps k (Some c) cs)"

text \<open>\<open>(.)\1{4,}\<close>: a character other than newline, then four or more copies of it.\<close>

definition m_repeat5 :: matcher where
  "m_repeat5 prev rest =
     (case rest of [] \<Rightarrow> False
      | c # cs \<Rightarrow> re_dot c \<and> 4 \<le> length (takeWhile (\<lambda>x. x = c) cs))"

fun search_from :: "matcher \<Rightarrow> nat option \<Rightarrow> pystr \<Rightarrow> bool" where
  "search_from m prev [] = m prev []"
| "search_from m prev (c # cs) = (m prev (c # cs) \<or> search_from m (Some c) cs)"

definition re_search :: "matcher \<Rightarrow> pystr \<Rightarrow> bool" where
  "re_search m s = search_from m None s"

text \<open>\<open>\bkeyword\b\<close> under \<open>re.IGNORECASE\<close>.\<close>

definition m_keyword :: "pystr \<Rightarrow> matcher" where
  "m_keyword kw = m_b (m_lit_ic kw (m_b m_end))"

section \<open>The validator of the importer\<close>

definition place_keywords :: "pystr list" where
  "place_keywords =
     [ascii ''street'', ascii ''avenue'', ascii ''road'', ascii ''drive'',
      [1091, 1083, 1080, 1094, 1072],
      [1087, 1088, 1086, 1089, 1087, 1077, 1082, 1090],
      [1087, 1077, 1088, 1077, 1091, 1083, 1086, 1082],
      ascii ''moscow'', ascii ''london'', ascii ''paris'']"

definition month_names :: "pystr list" where
  "month_names =
     [ascii ''january'', ascii ''february'', ascii ''march'', ascii ''april'',
      ascii ''may'', ascii ''june'', ascii ''july'', ascii ''august'',
      ascii ''september'', ascii ''october'', ascii ''november'', ascii ''december'',
      [1103, 1085, 1074, 1072, 1088, 1100],
      [1092, 1077, 1074, 1088, 1072, 1083, 1100],
      [1084, 1072, 1088, 1090],
      [1072, 1087, 1088, 1077, 1083, 1100],
      [1084, 1072, 1081],
      [1080, 1102, 1085, 1100],
      [1080, 1102, 1083, 1100],
      [1072, 1074, 1075, 1091, 1089, 1090],
      [1089, 1077, 1085, 1090, 1103, 1073, 1088, 1100],
      [1086, 1082, 1090, 1103, 1073, 1088, 1100],
      [1085, 1086, 1103, 1073, 1088, 1100],
      [1076, 1077, 1082, 1072, 1073, 1088, 1100]]"

definition theater_keywords :: "pystr list" where
  "theater_keywords =
     [ascii ''act'', ascii ''scene'', ascii ''page'', ascii ''chapter'',
      [1072, 1082, 1090],
      [1089, 1094, 1077, 1085, 1072],
      [1089, 1090, 1088, 1072, 1085, 1080, 1094, 1072],
      [1075, 1083, 1072, 1074, 1072]]"

text \<open>\<open>\b[IVXLCDM]{2,}\b\<close> under \<open>re.IGNORECASE\<close>.\<close>

definition pat_roman :: matcher where
  "pat_roman = m_b (m_cls re_roman (m_plus re_roman (m_b m_end)))"

text \<open>\<open>\b[A-Z][a-z]+\s+[A-Z][a-z]+\<close>.\<close>

definition pat_two_names :: matcher where
  "pat_two_names =
     m_b (m_cls re_upper_az (m_plus re_lower_az (m_plus py_isspace
       (m_cls re_upper_az (m_plus re_lower_az m_end)))))"

text \<open>\<open>["\<guillemotleft>\<guillemotright>""][A-Z][a-z]+.*[A-Z][a-z]+["\<guillemotleft>\<guillemotright>""]\<close>.\<close>

definition pat_title :: matcher where
  "pat_title =
     m_cls re_quote (m_cls re_upper_az (m_plus re_lower_az (m_star re_dot
       (m_cls re_upper_az (m_plus re_lower_az (m_cls re_quote m_end))))))"

text \<open>\<open>http[s]?://|www\.|@\<close> under \<open>re.IGNORECASE\<close>.\<close>

definition pat_url :: matcher where
  "pat_url prev rest \<longleftrightarrow>
     m_lit_ic (ascii ''http'')
       (m_opt (\<lambda>c. py_lower_char c = 115) (m_lit_ic (ascii ''://'') m_end)) prev rest \<or>
     m_lit_ic (ascii ''www.'') m_end prev rest \<or>
     m_lit_ic (ascii ''@'') m_end prev rest"

text \<open>
  \<open>is_valid_quotation\<close> of \<open>import_to_postgres.py\<close>. The length test is on the
  stripped text; every later test is on the whitespace-normalised text.
  \<open>first_not_upper\<close> is \<open>not text[0].isupper()\<close>; it is evaluated only after the
  two-names pattern has matched, so the normalised text is not empty there.
\<close>

definition first_not_upper :: "pystr \<Rightarrow> bool" where
  "first_not_upper text = (case text of [] \<Rightarrow> False | c # _ \<Rightarrow> \<not> py_isupper c)"

definition is_valid_quotation :: "pystr \<Rightarrow> bool" where
  "is_valid_quotation text0 =
     (if text0 = [] \<or> length (py_strip text0) < 20 then False
      else
        let text = normalize_ws text0 in
        if re_search (m_cls re_digit m_end) text then False
        else if re_search pat_roman text then False
        else if re_search pat_two_names text \<and> first_not_upper text then False
        else if list_ex (\<lambda>kw. re_search (m_keyword kw) text) place_keywords then False
        else if re_search pat_title text then False
        else if re_search pat_url text then False
        else if list_ex (\<lambda>kw. re_search (m_keyword kw) text) month_names then False
        else if list_ex (\<lambda>kw. re_search (m_keyword kw) text) theater_keywords then False
        else if re_search m_repeat5 text then False
        else True)"

section \<open>Corpus records and files\<close>

text \<open>
  A record of a JSON batch is an object with the keys \<open>text\<close>, \<open>author\<close>,
  \<open>source\<close> and \<open>lang\<close>; each may be missing, \<open>null\<close> or a string. An array item
  that is not such an object is \<open>Malformed\<close>: \<open>q.get\<close> raises on it.
\<close>

datatype jfield = Absent | Null | Str pystr

record quote =
  q_text :: jfield
  q_author :: jfield
  q_source :: jfield
  q_lang :: jfield

datatype entry = Rec quote | Malformed

text \<open>
  A file holds a JSON array, or lines of text, on which \<open>json.load\<close> raises.
\<close>

datatype jfile = Json "entry list" | Plain "pystr list"

type_synonym fsys = "(string \<times> jfile) list"

text \<open>\<open>d.get(k, default)\<close> and \<open>d.get(k)\<close>; the result \<open>None\<close> is Python's \<open>None\<close>.\<close>

definition field_or :: "jfield \<Rightarrow> pystr \<Rightarrow> pystr option" where
  "field_or f d = (case f of Absent \<Rightarrow> Some d | Null \<Rightarrow> None | Str s \<Rightarrow> Some s)"

definition field_get :: "jfield \<Rightarrow> pystr option" where
  "field_get f = (case f of Absent \<Rightarrow> None | Null \<Rightarrow> None | Str s \<Rightarrow> Some s)"

section \<open>Merge\<close>

text \<open>
  \<open>q.get("text", "").strip().lower()\<close>. On a \<open>null\<close> text \<open>.strip()\<close> raises
  \<open>AttributeError\<close>: the key is then \<open>None\<close>.
\<close>

definition mkey :: "quote \<Rightarrow> pystr" where
  "mkey q = py_lower (py_strip (case q_text q of Str s \<Rightarrow> s | _ \<Rightarrow> []))"

definition merge_key :: "quote \<Rightarrow> pystr option" where
  "merge_key q = (if q_text q = Null then None else Some (mkey q))"

text \<open>
  The inner loop over one file, on the pair \<open>(seen_texts, all_quotes)\<close>. Both are
  updated in place, so an exception in the middle of a file keeps what was
  appended before it and abandons the rest of the file.
\<close>

fun merge_entries :: "entry list \<Rightarrow> pystr set \<times> quote list \<Rightarrow> pystr set \<times> quote list" where
  "merge_entries [] st = st"
| "merge_entries (Malformed # es) st = st"
| "merge_entries (Rec q # es) st =
     (case merge_key q of
        None \<Rightarrow> st
      | Some k \<Rightarrow>
          merge_entries es
            (if k \<noteq> [] \<and> k \<notin> fst st then (insert k (fst st), snd st @ [q]) else st))"

text \<open>The loop over the files: a file that cannot be loaded is logged and passed over.\<close>

fun merge_files :: "jfile list \<Rightarrow> pystr set \<times> quote list \<Rightarrow> pystr set \<times> quote list" where
  "merge_files [] st = st"
| "merge_files (Plain ls # fs) st = merge_files fs st"
| "merge_files (Json es # fs) st = merge_files fs (merge_entries es st)"

text \<open>\<open>glob.glob("*.json")\<close>: the names ending in \<open>.json\<close> that do not start with a dot.\<close>

definition is_json_name :: "string \<Rightarrow> bool" where
  "is_json_name n \<longleftrightarrow>
     5 \<le> length n \<and> take 1 n \<noteq> ''.'' \<and> drop (length n - 5) n = ''.json''"

text \<open>
  A line of the text rendering: the text, a dash (U+2014) between spaces and the
  author, or the text alone.
\<close>

definition get_or_empty :: "jfield \<Rightarrow> pystr" where
  "get_or_empty f = (case f of Str s \<Rightarrow> s | _ \<Rightarrow> [])"

definition render_line :: "quote \<Rightarrow> pystr" where
  "render_line q =
     (if get_or_empty (q_author q) = [] then get_or_empty (q_text q)
      else get_or_empty (q_text q) @ [32, 8212, 32] @ get_or_empty (q_author q))"

definition fs_write :: "string \<Rightarrow> jfile \<Rightarrow> fsys \<Rightarrow> fsys" where
  "fs_write n f fs = (n, f) # filter (\<lambda>e. fst e \<noteq> n) fs"

text \<open>
  \<open>merge_quotes\<close> for the pattern \<open>*.json\<close>. The result \<open>None\<close> is an exception
  leaving the function: the two output files are opened outside any \<open>try\<close>, so a
  directory that cannot be written raises. Nothing is written for an empty result.
\<close>

definition merge_inputs :: "string list \<Rightarrow> fsys \<Rightarrow> jfile list" where
  "merge_inputs exclude_files fs =
     map snd (filter (\<lambda>e. is_json_name (fst e) \<and> fst e \<notin> set exclude_files) fs)"

definition merge_quotes ::
  "string list \<Rightarrow> string \<Rightarrow> string \<Rightarrow> bool \<Rightarrow> fsys \<Rightarrow> (quote list \<times> fsys) option" where
  "merge_quotes exclude_files output_json output_txt writable fs =
     (let all_quotes = snd (merge_files (merge_inputs exclude_files fs) ({}, [])) in
      if all_quotes = [] then Some ([], fs)
      else if \<not> writable then None
      else Some (all_quotes,
             fs_write output_txt (Plain (map render_line all_quotes))
               (fs_write output_json (Json (map Rec all_quotes)) fs)))"

section \<open>The store\<close>

text \<open>
  The table \<open>quotations\<close> with the columns the importer writes; \<open>id\<close>,
  \<open>created_at\<close> and the translation columns take their defaults. A statement that
  the database rejects is \<open>None\<close>. \<open>VARCHAR(n)\<close> rejects a longer value unless the
  excess is all spaces, which it cuts off. Failures of the driver or the server
  that do not come from the schema (a lost connection, a NUL character in a
  string) are not part of the model.
\<close>

record row =
  text_original :: pystr
  language_original :: pystr
  author :: "pystr option"
  source_url :: "pystr option"
  tags :: "pystr list"

definition varchar :: "nat \<Rightarrow> pystr \<Rightarrow> pystr option" where
  "varchar n s =
     (if length s \<le> n then Some s
      else if list_all (\<lambda>c. c = 32) (drop n s) then Some (take n s)
      else None)"

definition varchar_null :: "nat \<Rightarrow> pystr option \<Rightarrow> pystr option option" where
  "varchar_null n v = (case v of None \<Rightarrow> Some None | Some s \<Rightarrow> map_option Some (varchar n s))"

definition has_key :: "pystr \<Rightarrow> pystr \<Rightarrow> row list \<Rightarrow> bool" where
  "has_key t l tbl = list_ex (\<lambda>r. text_original r = t \<and> language_original r = l) tbl"

text \<open>\<open>SELECT id FROM quotations WHERE text_original = %s AND language_original = %s\<close>.\<close>

definition db_select :: "pystr \<Rightarrow> pystr option \<Rightarrow> row list \<Rightarrow> bool" where
  "db_select t lang tbl = (case lang of None \<Rightarrow> False | Some l \<Rightarrow> has_key t l tbl)"

text \<open>
  \<open>INSERT INTO quotations (text_original, language_original, author, source_url, tags)\<close>
  under \<open>NOT NULL\<close>, the column widths and \<open>UNIQUE(text_original, language_original)\<close>.
\<close>

definition db_insert ::
  "pystr \<Rightarrow> pystr option \<Rightarrow> pystr option \<Rightarrow> pystr option \<Rightarrow> row list \<Rightarrow> row list option" where
  "db_insert t lang auth src tbl =
     Option.bind lang (\<lambda>l0.
     Option.bind (varchar 10 l0) (\<lambda>l.
     Option.bind (varchar_null 255 auth) (\<lambda>a.
     Option.bind (varchar_null 500 src) (\<lambda>s.
       if has_key t l tbl then None
       else Some (tbl @ [\<lparr>text_original = t, language_original = l, author = a,
                          source_url = s, tags = [ascii ''general'']\<rparr>])))))"

text \<open>A connection: the committed table and the table as the open transaction sees it.\<close>

record conn =
  committed :: "row list"
  working :: "row list"

definition commit :: "conn \<Rightarrow> conn" where
  "commit c = c\<lparr>committed := working c\<rparr>"

definition rollback :: "conn \<Rightarrow> conn" where
  "rollback c = c\<lparr>working := committed c\<rparr>"

section \<open>The importer\<close>

record stats =
  loaded :: nat
  saved :: nat
  skipped :: nat
  errors :: nat

definition zero_stats :: stats where
  "zero_stats = \<lparr>loaded = 0, saved = 0, skipped = 0, errors = 0\<rparr>"

text \<open>The three ways an iteration of the import loop ends.\<close>

definition on_skip :: "conn \<times> stats \<Rightarrow> conn \<times> stats" where
  "on_skip cs = (fst cs, (snd cs)\<lparr>skipped := skipped (snd cs) + 1\<rparr>)"

definition on_error :: "conn \<times> stats \<Rightarrow> conn \<times> stats" where
  "on_error cs = (rollback (fst cs), (snd cs)\<lparr>errors := errors (snd cs) + 1\<rparr>)"

definition on_saved :: "row list \<Rightarrow> conn \<times> stats \<Rightarrow> conn \<times> stats" where
  "on_saved tbl cs =
     (let c = (fst cs)\<lparr>working := tbl\<rparr>; n = saved (snd cs) + 1 in
      (if n mod 100 = 0 then commit c else c, (snd cs)\<lparr>saved := n\<rparr>))"

text \<open>The duplicate check and the insert, for a text that passed the filters.\<close>

definition import_valid ::
  "pystr \<Rightarrow> pystr option \<Rightarrow> pystr option \<Rightarrow> pystr option \<Rightarrow> conn \<times> stats \<Rightarrow> conn \<times> stats" where
  "import_valid t lang auth src cs =
     (if db_select t lang (working (fst cs)) then on_skip cs
      else case db_insert t lang auth src (working (fst cs)) of
             None \<Rightarrow> on_error cs
           | Some tbl \<Rightarrow> on_saved tbl cs)"

text \<open>
  The body of the loop for an object. \<open>quote.get("text", "").strip()\<close> raises on a
  \<open>null\<close> text; the handler counts an error and rolls the transaction back.
\<close>

definition import_record :: "quote \<Rightarrow> conn \<times> stats \<Rightarrow> conn \<times> stats" where
  "import_record q cs =
     (case field_or (q_text q) [] of
        None \<Rightarrow> on_error cs
      | Some raw \<Rightarrow>
          if py_strip raw = [] then on_skip cs
          else if \<not> is_valid_quotation (py_strip raw) then on_skip cs
          else import_valid (py_strip raw) (field_or (q_lang q) (ascii ''en''))
                 (field_get (q_author q)) (field_or (q_source q) []) cs)"

definition import_entry :: "entry \<Rightarrow> conn \<times> stats \<Rightarrow> conn \<times> stats" where
  "import_entry e cs = (case e of Malformed \<Rightarrow> on_error cs | Rec q \<Rightarrow> import_record q cs)"

fun import_loop :: "entry list \<Rightarrow> conn \<times> stats \<Rightarrow> conn \<times> stats" where
  "import_loop [] cs = cs"
| "import_loop (e # es) cs = import_loop es (import_entry e cs)"

text \<open>
  A harvest script as the orchestrator sees its process: the seconds it needs,
  the message of the exception when the process cannot be started, its return
  code, its standard output followed by its standard error, and the files it
  has written by the time it exits or is killed.
\<close>

record script =
  duration :: nat
  launch_error :: "pystr option"
  returncode :: int
  proc_output :: pystr
  writes :: "(string \<times> jfile) list"

text \<open>
  The world a run takes place in: the programs and the data files of the working
  directory, the environment variable \<open>DB_URL\<close>, whether the server accepts
  the connection, and the committed table.
\<close>

record world =
  programs :: "(string \<times> script) list"
  fs :: fsys
  fs_writable :: bool
  db_url :: "pystr option"
  db_reachable :: bool
  db :: "row list"

definition read_json :: "world \<Rightarrow> string \<Rightarrow> entry list option" where
  "read_json w n = (case map_of (fs w) n of Some (Json es) \<Rightarrow> Some es | _ \<Rightarrow> None)"

text \<open>\<open>get_db_connection\<close> succeeds: \<open>DB_URL\<close> is set and not empty, and the server answers.\<close>

definition can_connect :: "world \<Rightarrow> bool" where
  "can_connect w \<longleftrightarrow> db_url w \<noteq> None \<and> db_url w \<noteq> Some [] \<and> db_reachable w"

text \<open>
  \<open>import_to_postgres\<close>. Every exception is caught inside the function, so it
  always returns its statistics; \<open>final_stats\<close>, read back from the store for the
  log, is left out.
\<close>

definition import_rows :: "entry list \<Rightarrow> bool \<Rightarrow> row list \<Rightarrow> conn \<times> stats" where
  "import_rows es clear_existing tbl =
     (let t0 = (if clear_existing then [] else tbl) in
      import_loop es (\<lparr>committed = t0, working = t0\<rparr>, zero_stats\<lparr>loaded := length es\<rparr>))"

definition import_to_postgres :: "string \<Rightarrow> bool \<Rightarrow> world \<Rightarrow> stats \<times> world" where
  "import_to_postgres input_file clear_existing w =
     (case read_json w input_file of
        None \<Rightarrow> (zero_stats, w)
      | Some es \<Rightarrow>
          if \<not> can_connect w then (zero_stats\<lparr>loaded := length es\<rparr>, w)
          else
            let cs = import_rows es clear_existing (db w) in
            (snd cs, w\<lparr>db := committed (commit (fst cs))\<rparr>))"

section \<open>The orchestrator\<close>

definition starts_with :: "'a list \<Rightarrow> 'a list \<Rightarrow> bool" where
  "starts_with p s \<longleftrightarrow> take (length p) s = p"

text \<open>The substring test \<open>sub in s\<close>.\<close>

fun contains :: "'a list \<Rightarrow> 'a list \<Rightarrow> bool" where
  "contains sub [] = (sub = [])"
| "contains sub (c # cs) = (starts_with sub (c # cs) \<or> contains sub cs)"

definition acceptable_errors :: "pystr list" where
  "acceptable_errors =
     [ascii ''not accessible'', ascii ''Connection refused'', ascii ''ConnectionError'',
      ascii ''Connection timeout'', ascii ''Max retries exceeded'',
      ascii ''No connection could be made'', ascii ''actively refused'',
      ascii ''is down or blocked'', ascii ''rate limit'', ascii ''403'', ascii ''404'',
      ascii ''No quotes found'', ascii ''Site structure changed'']"

definition is_harvest_error_acceptable :: "pystr \<Rightarrow> bool" where
  "is_harvest_error_acceptable error_output =
     list_ex (\<lambda>err. contains (py_lower err) (py_lower error_output)) acceptable_errors"

text \<open>
  The two helpers that read figures and warnings out of a script's output,
  \<open>extract_quotes_count\<close> and \<open>extract_errors\<close>, only feed the report. They are
  taken as functions of the output, so every result below holds whatever they
  return.
\<close>

record scrapers =
  extract_quotes_count :: "pystr \<Rightarrow> int"
  extract_errors :: "pystr \<Rightarrow> pystr list"

type_synonym script_result = "bool \<times> pystr \<times> int \<times> pystr list"

text \<open>
  \<open>run_harvest_script\<close>: \<open>subprocess.run\<close> with \<open>timeout=3600\<close> raises
  \<open>TimeoutExpired\<close> for a process that needs longer.
\<close>

definition exn_message :: "pystr option \<Rightarrow> pystr" where
  "exn_message e = (case e of None \<Rightarrow> [] | Some m \<Rightarrow> m)"

definition run_harvest_script :: "scrapers \<Rightarrow> script \<Rightarrow> script_result" where
  "run_harvest_script sc s =
     (if launch_error s \<noteq> None
        then (False, ascii ''Exception: '' @ exn_message (launch_error s), 0, [])
      else if 3600 < duration s then (False, ascii ''Timeout'', 0, [])
      else if returncode s = 0
        then (True, ascii ''Success'', extract_quotes_count sc (proc_output s),
              extract_errors sc (proc_output s))
      else if is_harvest_error_acceptable (proc_output s)
        then (False, ascii ''Acceptable error (site unavailable)'', 0,
              extract_errors sc (proc_output s))
      else (False, ascii ''Error: '' @ take 200 (proc_output s), 0,
            extract_errors sc (proc_output s)))"

datatype herror = Warnings string "pystr list" | Failure string pystr "pystr list"

record hstats =
  h_total :: nat
  h_success :: nat
  h_failed :: nat
  h_skipped :: nat
  h_total_quotes :: int
  h_errors :: "herror list"

definition zero_hstats :: hstats where
  "zero_hstats = \<lparr>h_total = 0, h_success = 0, h_failed = 0, h_skipped = 0,
                   h_total_quotes = 0, h_errors = []\<rparr>"

text \<open>The body of the loop of \<open>run_harvest_stage\<close>: how one result is counted.\<close>

definition count_success :: "string \<Rightarrow> int \<Rightarrow> pystr list \<Rightarrow> hstats \<Rightarrow> hstats" where
  "count_success name quotes_count errs st =
     st\<lparr>h_success := h_success st + 1,
        h_total_quotes := (if 0 \<le> quotes_count then h_total_quotes st + quotes_count
                           else h_total_quotes st),
        h_errors := (if errs \<noteq> [] then h_errors st @ [Warnings name errs] else h_errors st)\<rparr>"

definition count_result :: "string \<Rightarrow> script_result \<Rightarrow> hstats \<Rightarrow> hstats" where
  "count_result name r st =
     (if fst r then count_success name (fst (snd (snd r))) (snd (snd (snd r))) st
      else if contains (ascii ''Acceptable'') (fst (snd r))
        then st\<lparr>h_skipped := h_skipped st + 1\<rparr>
      else st\<lparr>h_failed := h_failed st + 1,
              h_errors := h_errors st @ [Failure name (fst (snd r)) (snd (snd (snd r)))]\<rparr>)"

text \<open>\<open>glob.glob("harvest_*.py")\<close>, then \<open>scripts.sort()\<close> in code point order.\<close>

definition is_harvest_name :: "string \<Rightarrow> bool" where
  "is_harvest_name n \<longleftrightarrow>
     11 \<le> length n \<and> take 8 n = ''harvest_'' \<and> drop (length n - 3) n = ''.py''"

fun str_le :: "string \<Rightarrow> string \<Rightarrow> bool" where
  "str_le [] t = True"
| "str_le (a # as) [] = False"
| "str_le (a # as) (b # bs) =
     ((of_char a :: nat) < of_char b \<or> (a = b \<and> str_le as bs))"

fun insert_name :: "string \<Rightarrow> string list \<Rightarrow> string list" where
  "insert_name n [] = [n]"
| "insert_name n (m # ms) = (if str_le n m then n # m # ms else m # insert_name n ms)"

definition find_harvest_scripts :: "world \<Rightarrow> string list" where
  "find_harvest_scripts w =
     foldr insert_name (filter is_harvest_name (map fst (programs w))) []"

text \<open>Running one script: the files it wrote appear in the directory.\<close>

definition apply_writes :: "(string \<times> jfile) list \<Rightarrow> fsys \<Rightarrow> fsys" where
  "apply_writes ws fs0 = foldl (\<lambda>acc e. fs_write (fst e) (snd e) acc) fs0 ws"

definition run_process :: "script \<Rightarrow> world \<Rightarrow> world" where
  "run_process s w =
     (if launch_error s \<noteq> None then w else w\<lparr>fs := apply_writes (writes s) (fs w)\<rparr>)"

record pipeline =
  skip_harvest :: bool
  skip_merge :: bool
  skip_import :: bool
  clear_db :: bool
  stats_only :: bool

record pstate =
  pworld :: world
  harvest :: hstats
  merge_output_quotes :: nat
  import_stats :: stats

definition init_state :: "world \<Rightarrow> pstate" where
  "init_state w = \<lparr>pworld = w, harvest = zero_hstats, merge_output_quotes = 0,
                   import_stats = zero_stats\<rparr>"

definition harvest_step :: "scrapers \<Rightarrow> string \<Rightarrow> pstate \<Rightarrow> pstate" where
  "harvest_step sc name ps =
     (case map_of (programs (pworld ps)) name of
        None \<Rightarrow> ps
      | Some s \<Rightarrow>
          ps\<lparr>pworld := run_process s (pworld ps),
             harvest := count_result name (run_harvest_script sc s) (harvest ps)\<rparr>)"

fun harvest_loop :: "scrapers \<Rightarrow> string list \<Rightarrow> pstate \<Rightarrow> pstate" where
  "harvest_loop sc [] ps = ps"
| "harvest_loop sc (n # ns) ps = harvest_loop sc ns (harvest_step sc n ps)"

definition run_harvest_stage :: "scrapers \<Rightarrow> pipeline \<Rightarrow> pstate \<Rightarrow> bool \<times> pstate" where
  "run_harvest_stage sc p ps =
     (if skip_harvest p then (True, ps)
      else
        let scripts = find_harvest_scripts (pworld ps);
            ps1 = ps\<lparr>harvest := (harvest ps)\<lparr>h_total := length scripts\<rparr>\<rparr>
        in if scripts = [] then (False, ps1)
           else let ps2 = harvest_loop sc scripts ps1
                in (0 < h_success (harvest ps2), ps2))"

definition merge_excluded :: "string list" where
  "merge_excluded = [''ALL_QUOTES.json'', ''ALL_QUOTES.txt'', ''harvest_pipeline.log'']"

definition run_merge_stage :: "pipeline \<Rightarrow> pstate \<Rightarrow> bool \<times> pstate" where
  "run_merge_stage p ps =
     (if skip_merge p then (True, ps)
      else case merge_quotes merge_excluded ''ALL_QUOTES.json'' ''ALL_QUOTES.txt''
                  (fs_writable (pworld ps)) (fs (pworld ps)) of
             None \<Rightarrow> (False, ps)
           | Some r \<Rightarrow>
               (0 < length (fst r),
                ps\<lparr>pworld := (pworld ps)\<lparr>fs := snd r\<rparr>,
                   merge_output_quotes := length (fst r)\<rparr>))"

definition run_import_stage :: "pipeline \<Rightarrow> pstate \<Rightarrow> bool \<times> pstate" where
  "run_import_stage p ps =
     (if skip_import p then (True, ps)
      else if map_of (fs (pworld ps)) ''ALL_QUOTES.json'' = None then (False, ps)
      else
        let r = import_to_postgres ''ALL_QUOTES.json'' (clear_db p) (pworld ps)
        in (0 < saved (fst r) \<or> 0 < skipped (fst r),
            ps\<lparr>pworld := snd r, import_stats := fst r\<rparr>))"

text \<open>
  \<open>HarvestPipeline.run\<close>. The statistics printed with \<open>--stats\<close> and in the final
  report only read the store.
\<close>

definition run_after_merge :: "pipeline \<Rightarrow> bool \<times> pstate \<Rightarrow> bool \<times> pstate" where
  "run_after_merge p m =
     (if \<not> fst m then (False, snd m)
      else let i = run_import_stage p (snd m)
           in if \<not> fst i then (False, snd i) else (True, snd i))"

definition run :: "scrapers \<Rightarrow> pipeline \<Rightarrow> pstate \<Rightarrow> bool \<times> pstate" where
  "run sc p ps =
     (if stats_only p then (True, ps)
      else run_after_merge p (run_merge_stage p (snd (run_harvest_stage sc p ps))))"

text \<open>\<open>main\<close>: \<open>sys.exit(0 if success else 1)\<close>.\<close>

definition main_exit :: "scrapers \<Rightarrow> pipeline \<Rightarrow> world \<Rightarrow> int" where
  "main_exit sc p w = (if fst (run sc p (init_state w)) then 0 else 1)"

section \<open>Harvesters\<close>









subsection \<open>\<open>harvest_citaty_net\<close>\<close>










subsection \<open>\<open>harvest_wikiquote_ru\<close>\<close>












section \<open>Notions used in the statements\<close>

text \<open>
  The records the merge loop reaches, in the order it reaches them: those of each
  JSON file up to the first entry on which the key computation raises.
\<close>

fun readable :: "entry list \<Rightarrow> quote list" where
  "readable [] = []"
| "readable (Malformed # es) = []"
| "readable (Rec q # es) = (if q_text q = Null then [] else q # readable es)"

fun merge_read :: "jfile list \<Rightarrow> quote list" where
  "merge_read [] = []"
| "merge_read (Plain ls # fls) = merge_read fls"
| "merge_read (Json es # fls) = readable es @ merge_read fls"

text \<open>
  The record at index \<open>i\<close> has a non-empty key that no earlier record has.
\<close>

definition first_with_key :: "quote list \<Rightarrow> nat \<Rightarrow> bool" where
  "first_with_key xs i \<longleftrightarrow>
     mkey (xs ! i) \<noteq> [] \<and> list_all (\<lambda>j. mkey (xs ! j) \<noteq> mkey (xs ! i)) [0..<i]"

text \<open>The records kept from a list when the keys in \<open>S\<close> have been seen, and the keys of a list.\<close>

fun keep :: "pystr set \<Rightarrow> quote list \<Rightarrow> quote list" where
  "keep S [] = []"
| "keep S (q # qs) =
     (if mkey q \<noteq> [] \<and> mkey q \<notin> S then q # keep (insert (mkey q) S) qs else keep S qs)"

definition keys_of :: "quote list \<Rightarrow> pystr set" where
  "keys_of xs = mkey ` set xs - {[]}"

text \<open>The uniqueness invariant of the table, for the table and for a connection.\<close>

definition unique_keys :: "row list \<Rightarrow> bool" where
  "unique_keys tbl \<longleftrightarrow> distinct (map (\<lambda>r. (text_original r, language_original r)) tbl)"

definition conn_ok :: "conn \<Rightarrow> bool" where
  "conn_ok c \<longleftrightarrow> unique_keys (committed c) \<and> unique_keys (working c)"


text \<open>
  The keys of a table, and an entry that a run leaves alone on a table: it is
  skipped or rejected there, so that neither the table nor the count of saved
  rows changes.
\<close>

definition row_keys :: "row list \<Rightarrow> (pystr \<times> pystr) set" where
  "row_keys tbl = set (map (\<lambda>r. (text_original r, language_original r)) tbl)"

definition settled_record :: "quote \<Rightarrow> row list \<Rightarrow> bool" where
  "settled_record q tbl =
     (case field_or (q_text q) [] of
        None \<Rightarrow> True
      | Some raw \<Rightarrow>
          py_strip raw = [] \<or> \<not> is_valid_quotation (py_strip raw) \<or>
          db_select (py_strip raw) (field_or (q_lang q) (ascii ''en'')) tbl \<or>
          db_insert (py_strip raw) (field_or (q_lang q) (ascii ''en''))
            (field_get (q_author q)) (field_or (q_source q) []) tbl = None)"

definition settled :: "entry \<Rightarrow> row list \<Rightarrow> bool" where
  "settled e tbl = (case e of Malformed \<Rightarrow> True | Rec q \<Rightarrow> settled_record q tbl)"

section \<open>Example inputs\<close>

definition text_a :: pystr where
  "text_a = ascii ''Well begun is half done, as they say.''"

definition text_b :: pystr where
  "text_b = ascii ''Fortune favours the bold and the patient.''"

definition quote_a :: quote where
  "quote_a = \<lparr>q_text = Str text_a, q_author = Null, q_source = Str (ascii ''s1''),
              q_lang = Str (ascii ''en'')\<rparr>"

definition quote_b :: quote where
  "quote_b = \<lparr>q_text = Str text_b, q_author = Str (replicate 256 97),
              q_source = Str (ascii ''s2''), q_lang = Str (ascii ''en'')\<rparr>"

definition world_ab :: world where
  "world_ab = \<lparr>programs = [], fs = [(''ALL_QUOTES.json'', Json [Rec quote_a, Rec quote_b])],
               fs_writable = True, db_url = Some (ascii ''postgresql://localhost/quotes''),
               db_reachable = True, db = []\<rparr>"

definition no_scrapers :: scrapers where
  "no_scrapers = \<lparr>extract_quotes_count = (\<lambda>out. - 1), extract_errors = (\<lambda>out. [])\<rparr>"

definition all_stages :: pipeline where
  "all_stages = \<lparr>skip_harvest = False, skip_merge = False, skip_import = False,
                 clear_db = False, stats_only = False\<rparr>"

definition world_no_scripts :: world where
  "world_no_scripts =
     \<lparr>programs = [], fs = [(''quotes.json'', Json [Rec quote_a])], fs_writable = True,
      db_url = Some (ascii ''postgresql://localhost/quotes''), db_reachable = True, db = []\<rparr>"

definition row_a :: row where
  "row_a = \<lparr>text_original = text_a, language_original = ascii ''en'', author = None,
            source_url = Some (ascii ''s1''), tags = [ascii ''general'']\<rparr>"

definition merged_a :: fsys where
  "merged_a = [(''ALL_QUOTES.txt'', Plain [text_a]),
               (''ALL_QUOTES.json'', Json [Rec quote_a]),
               (''quotes.json'', Json [Rec quote_a])]"

definition demo_script :: script where
  "demo_script = \<lparr>duration = 60, launch_error = None, returncode = 0, proc_output = [],
                  writes = [(''quotes.json'', Json [Rec quote_a])]\<rparr>"

definition world_no_db_url :: world where
  "world_no_db_url =
     \<lparr>programs = [(''harvest_demo.py'', demo_script)], fs = [], fs_writable = True,
      db_url = None, db_reachable = True, db = []\<rparr>"

definition slow_script :: script where
  "slow_script = \<lparr>duration = 3601, launch_error = None, returncode = 0, proc_output = [],
                  writes = []\<rparr>"

definition world_slow :: world where
  "world_slow =
     \<lparr>programs = [(''harvest_slow.py'', slow_script)], fs = [], fs_writable = True,
      db_url = Some (ascii ''postgresql://localhost/quotes''), db_reachable = True, db = []\<rparr>"

definition quote_en :: quote where
  "quote_en = \<lparr>q_text = Str (ascii ''Time heals all wounds.''), q_author = Null,
               q_source = Str (ascii ''a''), q_lang = Str (ascii ''en'')\<rparr>"

definition quote_ru :: quote where
  "quote_ru = \<lparr>q_text = Str (ascii ''Time heals all wounds.''), q_author = Null,
               q_source = Str (ascii ''b''), q_lang = Str (ascii ''ru'')\<rparr>"

definition quote_sp :: quote where
  "quote_sp = \<lparr>q_text = Str (ascii ''Time  heals all wounds.''), q_author = Null,
               q_source = Str (ascii ''b''), q_lang = Str (ascii ''en'')\<rparr>"


definition files_dup :: fsys where
  "files_dup = [(''a.json'', Json [Rec quote_en]), (''b.json'', Json [Rec quote_ru, Rec quote_sp])]"

definition files_dup_merged :: fsys where
  "files_dup_merged =
     (''ALL_QUOTES.txt'', Plain [ascii ''Time heals all wounds.'', ascii ''Time  heals all wounds.''])
     # (''ALL_QUOTES.json'', Json [Rec quote_en, Rec quote_sp]) # files_dup"





definition world_only_b :: world where
  "world_only_b =
     \<lparr>programs = [], fs = [(''quotes.json'', Json [Rec quote_b])], fs_writable = True,
      db_url = Some (ascii ''postgresql://localhost/quotes''), db_reachable = True, db = []\<rparr>"

definition merged_b :: fsys where
  "merged_b = [(''ALL_QUOTES.txt'', Plain [render_line quote_b]),
               (''ALL_QUOTES.json'', Json [Rec quote_b]),
               (''quotes.json'', Json [Rec quote_b])]"

section \<open>Properties of the validator\<close>

lemmas re_defs =
  re_search_def m_cls_def m_plus_def m_b_def m_end_def m_opt_def m_keyword_def
  word_opt_def re_word_def re_digit_def re_upper_az_def re_lower_az_def re_dot_def
  re_roman_def re_quote_def py_lower_char_def py_isspace_def py_isupper_def m_repeat5_def
  pat_roman_def pat_two_names_def pat_title_def pat_url_def first_not_upper_def
  place_keywords_def month_names_def theater_keywords_def

lemma stay_calm_normalized:
  "normalize_ws (ascii ''Stay      calm       now'') = ascii ''Stay calm now''"
  by (simp add: normalize_ws_def py_split_def ascii_def py_isspace_def)

lemma stay_calm_stripped:
  "length (py_strip (ascii ''Stay      calm       now'')) = 24"
  by (simp add: py_strip_def ascii_def py_isspace_def)

text \<open>
  C4 (as the code has it). A text whose length after stripping the leading and
  trailing whitespace is below 20 is rejected by \<open>is_valid_quotation\<close>: the length
  test runs on the stripped text, before the inner whitespace is collapsed.
\<close>

theorem is_valid_rejects_short_stripped:
  "length (py_strip t) < 20 \<Longrightarrow> \<not> is_valid_quotation t"
  by (simp add: is_valid_quotation_def)

theorem is_valid_rejects_short_stripped_witness:
  "length (py_strip (ascii ''  Too short.  '')) < 20 \<and>
   \<not> is_valid_quotation (ascii ''  Too short.  '')"
proof -
  have short: "length (py_strip (ascii ''  Too short.  '')) < 20"
    by (simp add: py_strip_def ascii_def py_isspace_def)
  from short is_valid_rejects_short_stripped [OF short] show ?thesis by simp
qed

text \<open>
  C4 as stated fails: the text below has 13 characters once its whitespace is
  normalised, but 24 after stripping, and it passes every later test.
\<close>

theorem is_valid_short_normalized_counterexample:
  "length (normalize_ws (ascii ''Stay      calm       now'')) < 20 \<and>
   is_valid_quotation (ascii ''Stay      calm       now'')"
proof
  show "length (normalize_ws (ascii ''Stay      calm       now'')) < 20"
    unfolding stay_calm_normalized by (simp add: ascii_def)
  show "is_valid_quotation (ascii ''Stay      calm       now'')"
    unfolding is_valid_quotation_def stay_calm_normalized Let_def
    apply (simp only: stay_calm_stripped)
    apply (simp add: ascii_def re_defs)
    done
qed

lemma text_a_facts:
  "py_strip text_a = text_a" "text_a \<noteq> []" "normalize_ws text_a = text_a" "20 \<le> length text_a"
  by (simp_all add: text_a_def py_strip_def ascii_def py_isspace_def normalize_ws_def py_split_def)

lemma text_b_facts:
  "py_strip text_b = text_b" "text_b \<noteq> []" "normalize_ws text_b = text_b" "20 \<le> length text_b"
  by (simp_all add: text_b_def py_strip_def ascii_def py_isspace_def normalize_ws_def py_split_def)

lemma text_a_valid: "is_valid_quotation text_a"
  unfolding is_valid_quotation_def text_a_facts Let_def
  using text_a_facts(2,4)
  apply (simp only: if_False not_less [symmetric] simp_thms)
  apply (simp add: text_a_def ascii_def re_defs)
  done

lemma text_b_valid: "is_valid_quotation text_b"
  unfolding is_valid_quotation_def text_b_facts Let_def
  using text_b_facts(2,4)
  apply (simp only: if_False not_less [symmetric] simp_thms)
  apply (simp add: text_b_def ascii_def re_defs)
  done

lemma text_a_b: "text_a \<noteq> text_b" "text_b \<noteq> text_a"
  by (simp_all add: text_a_def text_b_def ascii_def)

section \<open>Evaluation of the example inputs\<close>

lemma long_author: "varchar 255 (replicate 256 97) = None"
  by (simp add: varchar_def list_all_iff set_replicate_conv_if)

lemma en_fits: "varchar 10 (ascii ''en'') = Some (ascii ''en'')"
  by (simp add: varchar_def ascii_def)

lemma src_fits: "varchar 500 (ascii ''s1'') = Some (ascii ''s1'')"
  by (simp add: varchar_def ascii_def)

lemma rows_ab:
  "import_rows [Rec quote_a, Rec quote_b] False [] =
     (\<lparr>committed = [], working = []\<rparr>, \<lparr>loaded = 2, saved = 1, skipped = 0, errors = 1\<rparr>)"
  by (simp add: import_rows_def import_entry_def import_record_def import_valid_def
        quote_a_def quote_b_def field_or_def field_get_def text_a_facts text_b_facts
        text_a_valid text_b_valid db_select_def has_key_def db_insert_def varchar_null_def
        long_author en_fits src_fits on_saved_def on_error_def rollback_def commit_def
        zero_stats_def text_a_b Let_def)

lemma mkey_a: "mkey quote_a \<noteq> []" "merge_key quote_a = Some (mkey quote_a)"
  by (simp_all add: mkey_def merge_key_def quote_a_def text_a_facts py_lower_def)

lemma rows_a:
  "import_rows [Rec quote_a] c [] =
     (\<lparr>committed = [], working = [row_a]\<rparr>, \<lparr>loaded = 1, saved = 1, skipped = 0, errors = 0\<rparr>)"
  by (simp add: import_rows_def import_entry_def import_record_def import_valid_def
        quote_a_def field_or_def field_get_def text_a_facts text_a_valid db_select_def
        has_key_def db_insert_def varchar_null_def en_fits src_fits on_saved_def
        zero_stats_def Let_def row_a_def)

lemma merge_files_a: "merge_files [Json [Rec quote_a]] ({}, []) = ({mkey quote_a}, [quote_a])"
  by (simp add: mkey_a)

lemma render_a: "render_line quote_a = text_a"
  by (simp add: render_line_def get_or_empty_def quote_a_def)

lemma inputs_a:
  "merge_inputs merge_excluded [(''quotes.json'', Json [Rec quote_a])] = [Json [Rec quote_a]]"
  by (simp add: merge_inputs_def merge_excluded_def is_json_name_def)

lemma merge_a:
  "merge_quotes merge_excluded ''ALL_QUOTES.json'' ''ALL_QUOTES.txt'' True
     [(''quotes.json'', Json [Rec quote_a])] =
   Some ([quote_a], merged_a)"
  unfolding merge_quotes_def inputs_a merge_files_a Let_def snd_conv
  by (simp add: render_a fs_write_def merged_a_def)

lemma all_stages_simps:
  "\<not> skip_harvest all_stages" "\<not> skip_merge all_stages" "\<not> skip_import all_stages"
  "\<not> clear_db all_stages" "\<not> stats_only all_stages"
  by (simp_all add: all_stages_def)

lemma init_state_simps:
  "pworld (init_state w) = w" "harvest (init_state w) = zero_hstats"
  by (simp_all add: init_state_def)

lemma harvest_none:
  "run_harvest_stage sc all_stages (init_state world_no_scripts) =
     (False, init_state world_no_scripts)"
  by (simp add: run_harvest_stage_def all_stages_simps find_harvest_scripts_def
        world_no_scripts_def init_state_def zero_hstats_def Let_def)

lemma merge_none:
  "fst (run_merge_stage all_stages (init_state world_no_scripts))"
  "pworld (snd (run_merge_stage all_stages (init_state world_no_scripts))) =
     world_no_scripts\<lparr>fs := merged_a\<rparr>"
  by (simp_all add: run_merge_stage_def all_stages_simps init_state_def world_no_scripts_def merge_a)

lemma merged_a_corpus: "map_of (merged_a) ''ALL_QUOTES.json'' = Some (Json [Rec quote_a])"
  by (simp add: merged_a_def)

lemma import_merged:
  "import_to_postgres ''ALL_QUOTES.json'' False
     (world_no_scripts\<lparr>fs := merged_a\<rparr>) =
   (\<lparr>loaded = 1, saved = 1, skipped = 0, errors = 0\<rparr>,
    world_no_scripts\<lparr>fs := merged_a, db := [row_a]\<rparr>)"
  by (simp add: import_to_postgres_def read_json_def merged_a_corpus can_connect_def
        world_no_scripts_def rows_a commit_def ascii_def Let_def)

lemma import_none:
  "fst (run_import_stage all_stages
          (snd (run_merge_stage all_stages (init_state world_no_scripts))))"
  unfolding run_import_stage_def Let_def merge_none(2)
  by (simp add: all_stages_simps merged_a_corpus import_merged)

lemma demo_found: "find_harvest_scripts world_no_db_url = [''harvest_demo.py'']"
  by (simp add: find_harvest_scripts_def world_no_db_url_def is_harvest_name_def)

lemma demo_result: "run_harvest_script no_scrapers demo_script = (True, ascii ''Success'', - 1, [])"
  by (simp add: run_harvest_script_def demo_script_def no_scrapers_def)

lemma demo_lookup: "map_of (programs world_no_db_url) ''harvest_demo.py'' = Some demo_script"
  by (simp add: world_no_db_url_def)

lemma demo_process:
  "run_process demo_script world_no_db_url =
     world_no_db_url\<lparr>fs := [(''quotes.json'', Json [Rec quote_a])]\<rparr>"
  by (simp add: run_process_def demo_script_def apply_writes_def fs_write_def world_no_db_url_def)

lemma demo_count:
  "count_result n (True, ascii ''Success'', - 1, []) st = st\<lparr>h_success := h_success st + 1\<rparr>"
  by (simp add: count_result_def count_success_def)

lemma harvest_demo:
  "run_harvest_stage no_scrapers all_stages (init_state world_no_db_url) =
     (True, \<lparr>pworld = world_no_db_url\<lparr>fs := [(''quotes.json'', Json [Rec quote_a])]\<rparr>,
             harvest = zero_hstats\<lparr>h_total := 1, h_success := 1\<rparr>,
             merge_output_quotes = 0, import_stats = zero_stats\<rparr>)"
  unfolding run_harvest_stage_def init_state_simps demo_found Let_def
  by (simp add: all_stages_simps harvest_step_def init_state_simps demo_lookup demo_process
        demo_result demo_count)
     (simp add: init_state_def zero_hstats_def)

lemma merge_demo:
  "run_merge_stage all_stages
     \<lparr>pworld = world_no_db_url\<lparr>fs := [(''quotes.json'', Json [Rec quote_a])]\<rparr>,
      harvest = hs, merge_output_quotes = 0, import_stats = zero_stats\<rparr> =
   (True, \<lparr>pworld = world_no_db_url\<lparr>fs := merged_a\<rparr>,
           harvest = hs, merge_output_quotes = 1, import_stats = zero_stats\<rparr>)"
  by (simp add: run_merge_stage_def all_stages_simps merge_a world_no_db_url_def)

lemma import_demo:
  "run_import_stage all_stages
     \<lparr>pworld = world_no_db_url\<lparr>fs := merged_a\<rparr>,
      harvest = hs, merge_output_quotes = 1, import_stats = zero_stats\<rparr> =
   (False, \<lparr>pworld = world_no_db_url\<lparr>fs := merged_a\<rparr>,
            harvest = hs, merge_output_quotes = 1, import_stats = zero_stats\<lparr>loaded := 1\<rparr>\<rparr>)"
  by (simp add: run_import_stage_def all_stages_simps merged_a_corpus import_to_postgres_def
        read_json_def can_connect_def world_no_db_url_def zero_stats_def Let_def)

lemma slow_found: "find_harvest_scripts world_slow = [''harvest_slow.py'']"
  by (simp add: find_harvest_scripts_def world_slow_def is_harvest_name_def)


lemma rows_b:
  "import_rows [Rec quote_b] False [] =
     (\<lparr>committed = [], working = []\<rparr>, \<lparr>loaded = 1, saved = 0, skipped = 0, errors = 1\<rparr>)"
  by (simp add: import_rows_def import_entry_def import_record_def import_valid_def
        quote_b_def field_or_def field_get_def text_b_facts
        text_b_valid db_select_def has_key_def db_insert_def varchar_null_def
        long_author en_fits on_error_def rollback_def
        zero_stats_def Let_def)






lemma mkey_b: "mkey quote_b \<noteq> []" "merge_key quote_b = Some (mkey quote_b)"
  by (simp_all add: mkey_def merge_key_def quote_b_def text_b_facts py_lower_def)

lemma merge_files_b: "merge_files [Json [Rec quote_b]] ({}, []) = ({mkey quote_b}, [quote_b])"
  by (simp add: mkey_b)

lemma inputs_b:
  "merge_inputs merge_excluded [(''quotes.json'', Json [Rec quote_b])] = [Json [Rec quote_b]]"
  by (simp add: merge_inputs_def merge_excluded_def is_json_name_def)

lemma merge_b:
  "merge_quotes merge_excluded ''ALL_QUOTES.json'' ''ALL_QUOTES.txt'' True
     [(''quotes.json'', Json [Rec quote_b])] =
   Some ([quote_b], merged_b)"
  unfolding merge_quotes_def inputs_b merge_files_b Let_def snd_conv
  by (simp add: fs_write_def merged_b_def)

lemma harvest_only_b:
  "run_harvest_stage sc all_stages (init_state world_only_b) = (False, init_state world_only_b)"
  by (simp add: run_harvest_stage_def all_stages_simps find_harvest_scripts_def
        world_only_b_def init_state_def zero_hstats_def Let_def)

lemma merge_only_b:
  "fst (run_merge_stage all_stages (init_state world_only_b))"
  "pworld (snd (run_merge_stage all_stages (init_state world_only_b))) =
     world_only_b\<lparr>fs := merged_b\<rparr>"
  by (simp_all add: run_merge_stage_def all_stages_simps init_state_def world_only_b_def merge_b)

lemma merged_b_corpus: "map_of merged_b ''ALL_QUOTES.json'' = Some (Json [Rec quote_b])"
  by (simp add: merged_b_def)

lemma import_only_b:
  "import_to_postgres ''ALL_QUOTES.json'' False (world_only_b\<lparr>fs := merged_b\<rparr>) =
     (\<lparr>loaded = 1, saved = 0, skipped = 0, errors = 1\<rparr>, world_only_b\<lparr>fs := merged_b\<rparr>)"
  by (simp add: import_to_postgres_def read_json_def merged_b_corpus can_connect_def
        world_only_b_def rows_b commit_def ascii_def Let_def)

lemma import_stage_only_b:
  "\<not> fst (run_import_stage all_stages
            (snd (run_merge_stage all_stages (init_state world_only_b))))"
  unfolding run_import_stage_def Let_def merge_only_b(2)
  by (simp add: all_stages_simps merged_b_corpus import_only_b)

lemma merged_a_not_empty:
  "snd (merge_files (merge_inputs merge_excluded (fs world_no_scripts)) ({}, [])) = [quote_a]"
proof -
  have "fs world_no_scripts = [(''quotes.json'', Json [Rec quote_a])]"
    by (simp add: world_no_scripts_def)
  then show ?thesis
    by (simp add: inputs_a mkey_a)
qed

section \<open>Properties of the merge\<close>

lemma keys_of_simps [simp]:
  "keys_of [] = {}"
  "keys_of (q # qs) = (if mkey q = [] then keys_of qs else insert (mkey q) (keys_of qs))"
  "keys_of (xs @ ys) = keys_of xs \<union> keys_of ys"
  by (auto simp: keys_of_def)

lemma merge_entries_keep:
  "merge_entries es (S, acc) = (S \<union> keys_of (readable es), acc @ keep S (readable es))"
proof (induction es arbitrary: S acc)
  case Nil
  show ?case by simp
next
  case (Cons e es)
  show ?case
  proof (cases e)
    case Malformed
    then show ?thesis by simp
  next
    case (Rec q)
    show ?thesis
    proof (cases "q_text q = Null")
      case True
      with Rec show ?thesis by (simp add: merge_key_def)
    next
      case False
      with Rec show ?thesis
        by (auto simp: merge_key_def Cons.IH insert_absorb)
    qed
  qed
qed

lemma keep_append:
  "keep S (xs @ ys) = keep S xs @ keep (S \<union> keys_of xs) ys"
  by (induction xs arbitrary: S) (auto simp: insert_absorb)

lemma merge_files_keep:
  "merge_files fls (S, acc) = (S \<union> keys_of (merge_read fls), acc @ keep S (merge_read fls))"
proof (induction fls arbitrary: S acc)
  case Nil
  show ?case by simp
next
  case (Cons f fls)
  show ?case
    by (cases f) (simp_all add: Cons.IH merge_entries_keep keep_append Un_assoc)
qed

lemma first_with_key_0: "first_with_key (x # xs) 0 \<longleftrightarrow> mkey x \<noteq> []"
  by (simp add: first_with_key_def)

lemma list_all_upt_Suc0:
  "list_all P [0..<Suc i] \<longleftrightarrow> P 0 \<and> list_all (\<lambda>j. P (Suc j)) [0..<i]"
proof -
  have "[0..<Suc i] = 0 # map Suc [0..<i]"
    by (simp add: upt_conv_Cons map_Suc_upt del: upt_Suc)
  then show ?thesis
    by (simp add: list.pred_map o_def del: upt_Suc)
qed

lemma first_with_key_Suc:
  "first_with_key (x # xs) (Suc i) \<longleftrightarrow> mkey x \<noteq> mkey (xs ! i) \<and> first_with_key xs i"
  unfolding first_with_key_def list_all_upt_Suc0 by auto

lemma first_with_key_nonempty: "first_with_key xs i \<Longrightarrow> mkey (xs ! i) \<noteq> []"
  by (simp add: first_with_key_def)

lemma keep_index:
  "keep S xs =
     map (nth xs) (filter (\<lambda>i. mkey (xs ! i) \<notin> S \<and> first_with_key xs i) [0..<length xs])"
proof (induction xs arbitrary: S)
  case Nil
  show ?case by simp
next
  case (Cons x xs)
  have upt: "[0..<length (x # xs)] = 0 # map Suc [0..<length xs]"
    by (simp add: upt_conv_Cons map_Suc_upt del: upt_Suc)
  have tl: "map (nth (x # xs)) (filter P (map Suc [0..<length xs])) =
            map (nth xs) (filter (\<lambda>i. P (Suc i)) [0..<length xs])" for P
    by (simp add: filter_map o_def)
  show ?case
  proof (cases "mkey x \<noteq> [] \<and> mkey x \<notin> S")
    case True
    have "filter (\<lambda>i. mkey (xs ! i) \<notin> insert (mkey x) S \<and> first_with_key xs i) [0..<length xs]
        = filter (\<lambda>i. mkey ((x # xs) ! Suc i) \<notin> S \<and> first_with_key (x # xs) (Suc i)) [0..<length xs]"
      by (rule filter_cong) (auto simp: first_with_key_Suc)
    with True show ?thesis
      unfolding upt by (simp add: first_with_key_0 tl Cons.IH del: upt_Suc)
  next
    case False
    have "filter (\<lambda>i. mkey (xs ! i) \<notin> S \<and> first_with_key xs i) [0..<length xs]
        = filter (\<lambda>i. mkey ((x # xs) ! Suc i) \<notin> S \<and> first_with_key (x # xs) (Suc i)) [0..<length xs]"
      using False by (intro filter_cong) (auto simp: first_with_key_Suc dest: first_with_key_nonempty)
    with False show ?thesis
      unfolding upt by (auto simp add: first_with_key_0 tl Cons.IH simp del: upt_Suc)
  qed
qed

lemma merge_quotes_kept:
  "merge_quotes exclude_files output_json output_txt writable files = Some (kept, files') \<Longrightarrow>
   kept = snd (merge_files (merge_inputs exclude_files files) ({}, []))"
  by (auto simp: merge_quotes_def Let_def split: if_splits)

text \<open>
  C1 (as the code has it). Merge deduplicates on the key
  \<open>text.strip().lower()\<close> alone: of the records it reaches, it keeps exactly those
  whose key is not empty and differs from the key of every earlier record, in
  their order and unchanged. The language is not part of the key and inner
  whitespace is not collapsed.
\<close>

theorem merge_first_text_wins:
  assumes "merge_quotes exclude_files output_json output_txt writable files = Some (kept, files')"
  shows "kept =
     map (nth (merge_read (merge_inputs exclude_files files)))
       (filter (first_with_key (merge_read (merge_inputs exclude_files files)))
          [0..<length (merge_read (merge_inputs exclude_files files))])"
  using merge_quotes_kept [OF assms] by (simp add: merge_files_keep keep_index)

lemma inputs_dup:
  "merge_inputs merge_excluded files_dup = [Json [Rec quote_en], Json [Rec quote_ru, Rec quote_sp]]"
  by (simp add: merge_inputs_def merge_excluded_def is_json_name_def files_dup_def)

lemma merge_files_dup:
  "snd (merge_files [Json [Rec quote_en], Json [Rec quote_ru, Rec quote_sp]] ({}, [])) =
     [quote_en, quote_sp]"
  by (simp add: merge_key_def mkey_def quote_en_def quote_ru_def quote_sp_def py_strip_def
        py_lower_def py_lower_char_def py_isspace_def ascii_def)

lemma render_dup:
  "render_line quote_en = ascii ''Time heals all wounds.''"
  "render_line quote_sp = ascii ''Time  heals all wounds.''"
  by (simp_all add: render_line_def get_or_empty_def quote_en_def quote_sp_def)

lemma merge_dup:
  "merge_quotes merge_excluded ''ALL_QUOTES.json'' ''ALL_QUOTES.txt'' True files_dup =
     Some ([quote_en, quote_sp], files_dup_merged)"
  unfolding merge_quotes_def inputs_dup merge_files_dup Let_def
  by (simp add: render_dup fs_write_def files_dup_merged_def files_dup_def)

theorem merge_first_text_wins_witness:
  "merge_quotes merge_excluded ''ALL_QUOTES.json'' ''ALL_QUOTES.txt'' True files_dup =
     Some ([quote_en, quote_sp], files_dup_merged) \<and>
   [quote_en, quote_sp] =
     map (nth (merge_read (merge_inputs merge_excluded files_dup)))
       (filter (first_with_key (merge_read (merge_inputs merge_excluded files_dup)))
          [0..<length (merge_read (merge_inputs merge_excluded files_dup))])"
  using merge_first_text_wins [OF merge_dup] merge_dup by simp

text \<open>
  C1 as stated fails. The second record below has the text of the first and
  another language, and is dropped; the third has the language of the first and a
  text that differs from it only by a doubled space, and is kept.
\<close>

theorem merge_key_counterexample:
  "merge_quotes merge_excluded ''ALL_QUOTES.json'' ''ALL_QUOTES.txt'' True files_dup =
     Some ([quote_en, quote_sp], files_dup_merged) \<and>
   q_text quote_ru = q_text quote_en \<and> q_lang quote_ru \<noteq> q_lang quote_en \<and>
   py_lower (normalize_ws (get_or_empty (q_text quote_sp))) =
     py_lower (normalize_ws (get_or_empty (q_text quote_en))) \<and>
   q_lang quote_sp = q_lang quote_en"
  unfolding merge_dup
  by (simp add: quote_en_def quote_ru_def quote_sp_def py_lower_def py_lower_char_def
        py_isspace_def ascii_def normalize_ws_def py_split_def get_or_empty_def)

section \<open>Properties of the importer\<close>

lemma has_key_iff:
  "has_key t l tbl \<longleftrightarrow> (t, l) \<in> set (map (\<lambda>r. (text_original r, language_original r)) tbl)"
  by (auto simp: has_key_def list_ex_iff)

lemma db_insert_unique:
  assumes "unique_keys tbl" and "db_insert t lang a s tbl = Some tbl'"
  shows "unique_keys tbl'"
  using assms
  by (auto simp: db_insert_def unique_keys_def has_key_iff split: Option.bind_splits if_splits)

lemma on_skip_ok: "conn_ok (fst cs) \<Longrightarrow> conn_ok (fst (on_skip cs))"
  by (simp add: on_skip_def)

lemma on_error_ok: "conn_ok (fst cs) \<Longrightarrow> conn_ok (fst (on_error cs))"
  by (simp add: on_error_def rollback_def conn_ok_def)

lemma on_saved_ok:
  "conn_ok (fst cs) \<Longrightarrow> unique_keys tbl \<Longrightarrow> conn_ok (fst (on_saved tbl cs))"
  by (simp add: on_saved_def commit_def conn_ok_def Let_def)

lemma import_valid_ok:
  assumes "conn_ok (fst cs)"
  shows "conn_ok (fst (import_valid t lang a s cs))"
proof (cases "db_select t lang (working (fst cs))")
  case True
  with assms show ?thesis by (simp add: import_valid_def on_skip_ok)
next
  case False
  show ?thesis
  proof (cases "db_insert t lang a s (working (fst cs))")
    case None
    with False assms show ?thesis by (simp add: import_valid_def on_error_ok)
  next
    case (Some tbl)
    from assms have "unique_keys (working (fst cs))" by (simp add: conn_ok_def)
    then have "unique_keys tbl" using Some by (rule db_insert_unique)
    with False Some assms show ?thesis by (simp add: import_valid_def on_saved_ok)
  qed
qed

lemma import_record_ok: "conn_ok (fst cs) \<Longrightarrow> conn_ok (fst (import_record q cs))"
  unfolding import_record_def
  by (auto simp: on_skip_ok on_error_ok import_valid_ok split: option.splits)

lemma import_entry_ok: "conn_ok (fst cs) \<Longrightarrow> conn_ok (fst (import_entry e cs))"
  by (cases e) (simp_all add: import_entry_def on_error_ok import_record_ok)

lemma import_loop_ok: "conn_ok (fst cs) \<Longrightarrow> conn_ok (fst (import_loop es cs))"
  by (induction es arbitrary: cs) (simp_all add: import_entry_ok)

lemma import_rows_ok: "unique_keys tbl \<Longrightarrow> conn_ok (fst (import_rows es clear tbl))"
  unfolding import_rows_def Let_def
  by (rule import_loop_ok) (simp add: conn_ok_def unique_keys_def)

text \<open>
  C3. After an import run, for every corpus file, either value of
  \<open>clear_existing\<close> and every initial store without two rows of the same
  \<open>(text_original, language_original)\<close>, the store has no two such rows.
\<close>

theorem import_preserves_unique_keys:
  "unique_keys (db w) \<Longrightarrow> unique_keys (db (snd (import_to_postgres input_file clear_existing w)))"
  using import_rows_ok [of "db w"]
  by (auto simp: import_to_postgres_def Let_def commit_def conn_ok_def split: option.splits)

theorem import_preserves_unique_keys_witness:
  "unique_keys (db (world_no_scripts\<lparr>fs := merged_a\<rparr>)) \<and>
   db (snd (import_to_postgres ''ALL_QUOTES.json'' False (world_no_scripts\<lparr>fs := merged_a\<rparr>))) =
     [row_a] \<and>
   unique_keys
     (db (snd (import_to_postgres ''ALL_QUOTES.json'' False (world_no_scripts\<lparr>fs := merged_a\<rparr>))))"
proof -
  have u: "unique_keys (db (world_no_scripts\<lparr>fs := merged_a\<rparr>))"
    by (simp add: world_no_scripts_def unique_keys_def)
  from import_preserves_unique_keys [OF u, of "''ALL_QUOTES.json''" False] u
  show ?thesis by (simp add: import_merged)
qed

subsection \<open>Runs without errors\<close>

text \<open>
  When no record raises, nothing is rolled back, and a second run on the same
  corpus finds every record settled: it saves nothing and leaves the store as
  the first run left it.
\<close>

lemma has_key_row_keys: "has_key t l tbl \<longleftrightarrow> (t, l) \<in> row_keys tbl"
  by (simp add: has_key_iff row_keys_def)

lemma db_select_mono:
  "row_keys tbl \<subseteq> row_keys tbl' \<Longrightarrow> db_select t lang tbl \<Longrightarrow> db_select t lang tbl'"
  by (auto simp: db_select_def has_key_row_keys split: option.splits)

lemma db_insert_mono:
  "row_keys tbl \<subseteq> row_keys tbl' \<Longrightarrow> db_insert t lang a s tbl = None \<Longrightarrow>
   db_insert t lang a s tbl' = None"
  by (auto simp: db_insert_def has_key_row_keys split: Option.bind_splits if_splits)

lemma settled_mono:
  "row_keys tbl \<subseteq> row_keys tbl' \<Longrightarrow> settled e tbl \<Longrightarrow> settled e tbl'"
  by (cases e)
     (auto simp: settled_def settled_record_def split: option.splits
           dest: db_select_mono db_insert_mono)

lemma db_insert_grows:
  "db_insert t lang a s tbl = Some tbl' \<Longrightarrow>
   row_keys tbl \<subseteq> row_keys tbl' \<and> db_insert t lang a s tbl' = None"
  by (auto simp: db_insert_def row_keys_def has_key_iff split: Option.bind_splits if_splits)

lemma errors_on: 
  "errors (snd (on_skip cs)) = errors (snd cs)"
  "errors (snd (on_saved tbl cs)) = errors (snd cs)"
  "errors (snd (on_error cs)) = errors (snd cs) + 1"
  by (simp_all add: on_skip_def on_saved_def on_error_def Let_def)

lemma working_on:
  "working (fst (on_skip cs)) = working (fst cs)"
  "working (fst (on_saved tbl cs)) = tbl"
  by (simp_all add: on_skip_def on_saved_def commit_def Let_def)

lemma import_valid_step:
  assumes "errors (snd (import_valid t lang a s cs)) = errors (snd cs)"
  shows "row_keys (working (fst cs)) \<subseteq> row_keys (working (fst (import_valid t lang a s cs))) \<and>
         (db_select t lang (working (fst (import_valid t lang a s cs))) \<or>
          db_insert t lang a s (working (fst (import_valid t lang a s cs))) = None)"
proof (cases "db_select t lang (working (fst cs))")
  case True
  then show ?thesis by (simp add: import_valid_def working_on)
next
  case False
  show ?thesis
  proof (cases "db_insert t lang a s (working (fst cs))")
    case None
    with False assms show ?thesis by (simp add: import_valid_def errors_on)
  next
    case (Some tbl)
    with False db_insert_grows [OF Some] show ?thesis
      by (simp add: import_valid_def working_on)
  qed
qed

lemma import_record_step:
  assumes "errors (snd (import_record q cs)) = errors (snd cs)"
  shows "row_keys (working (fst cs)) \<subseteq> row_keys (working (fst (import_record q cs))) \<and>
         settled_record q (working (fst (import_record q cs)))"
proof (cases "field_or (q_text q) []")
  case None
  with assms show ?thesis by (simp add: import_record_def errors_on)
next
  case (Some raw)
  show ?thesis
  proof (cases "py_strip raw = [] \<or> \<not> is_valid_quotation (py_strip raw)")
    case True
    with Some show ?thesis
      by (auto simp: import_record_def settled_record_def working_on)
  next
    case False
    with Some have eq: "import_record q cs =
        import_valid (py_strip raw) (field_or (q_lang q) (ascii ''en''))
          (field_get (q_author q)) (field_or (q_source q) []) cs"
      by (simp add: import_record_def)
    from assms import_valid_step [of "py_strip raw" _ _ _ cs] Some show ?thesis
      unfolding eq by (simp add: settled_record_def)
  qed
qed

lemma import_entry_step:
  assumes "errors (snd (import_entry e cs)) = errors (snd cs)"
  shows "row_keys (working (fst cs)) \<subseteq> row_keys (working (fst (import_entry e cs))) \<and>
         settled e (working (fst (import_entry e cs)))"
proof (cases e)
  case Malformed
  with assms show ?thesis by (simp add: import_entry_def errors_on)
next
  case (Rec q)
  with assms import_record_step [of q cs] show ?thesis
    by (simp add: import_entry_def settled_def)
qed

lemma errors_import_valid: "errors (snd cs) \<le> errors (snd (import_valid t lang a s cs))"
  by (simp add: import_valid_def errors_on split: option.splits)

lemma errors_import_entry: "errors (snd cs) \<le> errors (snd (import_entry e cs))"
  by (cases e)
     (auto simp: import_entry_def import_record_def errors_on errors_import_valid
           split: option.splits)

lemma errors_import_loop: "errors (snd cs) \<le> errors (snd (import_loop es cs))"
proof (induction es arbitrary: cs)
  case Nil
  show ?case by simp
next
  case (Cons e es)
  from errors_import_entry [of cs e] Cons [of "import_entry e cs"] show ?case by simp
qed

lemma import_loop_settles:
  assumes "errors (snd (import_loop es cs)) = errors (snd cs)"
  shows "row_keys (working (fst cs)) \<subseteq> row_keys (working (fst (import_loop es cs))) \<and>
         list_all (\<lambda>e. settled e (working (fst (import_loop es cs)))) es"
  using assms
proof (induction es arbitrary: cs)
  case Nil
  show ?case by simp
next
  case (Cons e es)
  let ?cs = "import_entry e cs"
  from Cons.prems errors_import_entry [of cs e] errors_import_loop [of ?cs es]
  have e1: "errors (snd ?cs) = errors (snd cs)"
    and e2: "errors (snd (import_loop es ?cs)) = errors (snd ?cs)"
    by simp_all
  from import_entry_step [OF e1] Cons.IH [OF e2] show ?case
    by (auto intro: settled_mono)
qed

lemma settled_entry_idle:
  assumes "settled e tbl" and "fst cs = \<lparr>committed = tbl, working = tbl\<rparr>"
  shows "fst (import_entry e cs) = fst cs \<and> saved (snd (import_entry e cs)) = saved (snd cs)"
  using assms
  by (cases e)
     (auto simp: settled_def settled_record_def import_entry_def import_record_def
        import_valid_def on_skip_def on_error_def rollback_def
        split: option.splits)

lemma settled_loop_idle:
  assumes "list_all (\<lambda>e. settled e tbl) es" and "fst cs = \<lparr>committed = tbl, working = tbl\<rparr>"
  shows "fst (import_loop es cs) = fst cs \<and> saved (snd (import_loop es cs)) = saved (snd cs)"
  using assms
proof (induction es arbitrary: cs)
  case Nil
  show ?case by simp
next
  case (Cons e es)
  from Cons.prems settled_entry_idle [of e tbl cs]
  have s: "fst (import_entry e cs) = fst cs"
    and v: "saved (snd (import_entry e cs)) = saved (snd cs)"
    by simp_all
  from Cons.prems s have "fst (import_entry e cs) = \<lparr>committed = tbl, working = tbl\<rparr>"
    by simp
  from Cons.IH [OF _ this] Cons.prems s v show ?case by simp
qed

lemma import_idempotent_without_errors:
  assumes "errors (fst (import_to_postgres f clear w)) = 0"
  shows "saved (fst (import_to_postgres f False (snd (import_to_postgres f clear w)))) = 0 \<and>
         snd (import_to_postgres f False (snd (import_to_postgres f clear w))) =
           snd (import_to_postgres f clear w)"
proof (cases "read_json w f")
  case None
  then show ?thesis by (simp add: import_to_postgres_def zero_stats_def)
next
  case (Some es)
  show ?thesis
  proof (cases "can_connect w")
    case False
    with Some show ?thesis by (simp add: import_to_postgres_def zero_stats_def)
  next
    case True
    define t0 where "t0 = (if clear then [] else db w)"
    define cs0 where "cs0 = (\<lparr>committed = t0, working = t0\<rparr>, zero_stats\<lparr>loaded := length es\<rparr>)"
    define cs1 where "cs1 = import_loop es cs0"
    define db1 where "db1 = working (fst cs1)"
    have run1: "import_to_postgres f clear w = (snd cs1, w\<lparr>db := db1\<rparr>)"
      using Some True
      by (simp add: import_to_postgres_def import_rows_def Let_def commit_def
            cs1_def cs0_def t0_def db1_def)
    from assms run1 have "errors (snd cs1) = errors (snd cs0)"
      by (simp add: cs0_def zero_stats_def)
    from import_loop_settles [of es cs0, folded cs1_def, OF this]
    have settled_all: "list_all (\<lambda>e. settled e db1) es"
      by (simp add: db1_def)
    define cs2 where "cs2 = (\<lparr>committed = db1, working = db1\<rparr>, zero_stats\<lparr>loaded := length es\<rparr>)"
    from settled_loop_idle [OF settled_all, of cs2]
    have idle: "fst (import_loop es cs2) = \<lparr>committed = db1, working = db1\<rparr>"
      and sv: "saved (snd (import_loop es cs2)) = 0"
      by (simp_all add: cs2_def zero_stats_def)
    have rj: "read_json (w\<lparr>db := db1\<rparr>) f = Some es" and cc: "can_connect (w\<lparr>db := db1\<rparr>)"
      using Some True by (simp_all add: read_json_def can_connect_def)
    have run2: "import_to_postgres f False (w\<lparr>db := db1\<rparr>) =
        (snd (import_loop es cs2), w\<lparr>db := db1\<rparr>)"
      using rj cc idle
      by (simp add: import_to_postgres_def import_rows_def Let_def commit_def cs2_def)
    show ?thesis
      unfolding run1 snd_conv run2 by (simp add: sv)
  qed
qed

subsection \<open>Runs with errors\<close>

text \<open>
  C2 fails on the code. The handler of the import loop calls \<open>conn.rollback()\<close>,
  which also undoes the inserts made since the last commit. With a corpus of a
  valid record followed by one whose author exceeds \<open>VARCHAR(255)\<close>, the first
  run counts one saved row and leaves the store empty, and the second run on the
  same corpus counts one saved row again.
\<close>

theorem rollback_breaks_idempotence:
  "fst (import_to_postgres ''ALL_QUOTES.json'' False world_ab) =
     \<lparr>loaded = 2, saved = 1, skipped = 0, errors = 1\<rparr> \<and>
   snd (import_to_postgres ''ALL_QUOTES.json'' False world_ab) = world_ab \<and>
   saved (fst (import_to_postgres ''ALL_QUOTES.json'' False
                 (snd (import_to_postgres ''ALL_QUOTES.json'' False world_ab)))) = 1"
proof -
  have run: "import_to_postgres ''ALL_QUOTES.json'' False world_ab =
      (\<lparr>loaded = 2, saved = 1, skipped = 0, errors = 1\<rparr>, world_ab)"
    by (simp add: import_to_postgres_def read_json_def can_connect_def world_ab_def
          rows_ab commit_def Let_def ascii_def)
  show ?thesis by (simp add: run)
qed

text \<open>
  One iteration on a record without a \<open>lang\<close> key whose text passes the filters:
  it is skipped when the table has a row with its text and \<open>en\<close>; otherwise, when
  its author and source fit their columns, a row with the language \<open>en\<close> is added
  to the open transaction.
\<close>

lemma import_record_default_language:
  assumes "q_lang q = Absent" and "q_text q = Str raw" and "py_strip raw \<noteq> []"
    and "is_valid_quotation (py_strip raw)"
  shows "(has_key (py_strip raw) (ascii ''en'') (working (fst cs)) \<longrightarrow>
            import_record q cs = on_skip cs) \<and>
         (\<not> has_key (py_strip raw) (ascii ''en'') (working (fst cs)) \<and>
          (\<forall>a. q_author q = Str a \<longrightarrow> length a \<le> 255) \<and>
          (\<forall>s. q_source q = Str s \<longrightarrow> length s \<le> 500) \<longrightarrow>
            working (fst (import_record q cs)) =
              working (fst cs) @
                [\<lparr>text_original = py_strip raw, language_original = ascii ''en'',
                  author = field_get (q_author q), source_url = field_or (q_source q) [],
                  tags = [ascii ''general'']\<rparr>] \<and>
            saved (snd (import_record q cs)) = saved (snd cs) + 1)"
  using assms
  by (auto simp: import_record_def import_valid_def field_or_def field_get_def db_select_def
        db_insert_def varchar_def varchar_null_def ascii_def on_saved_def commit_def Let_def
        split: jfield.splits)











text \<open>
  C10. When the corpus file is missing or is not JSON, \<open>import_to_postgres\<close>
  returns with all four counters at zero and the world unchanged. A missing
  \<open>ALL_QUOTES.json\<close> makes the import stage fail because the orchestrator tests
  for the file first and then does not call the importer at all.
\<close>

theorem import_missing_corpus:
  "((\<forall>es. map_of (fs w) input_file \<noteq> Some (Json es)) \<longrightarrow>
      import_to_postgres input_file clear_existing w = (zero_stats, w)) \<and>
   (\<not> skip_import p \<and> map_of (fs (pworld ps)) ''ALL_QUOTES.json'' = None \<longrightarrow>
      run_import_stage p ps = (False, ps))"
  by (auto simp: import_to_postgres_def read_json_def run_import_stage_def
           split: option.splits jfile.splits)

theorem import_missing_corpus_witness:
  "(\<forall>es. map_of (fs world_slow) ''ALL_QUOTES.json'' \<noteq> Some (Json es)) \<and>
   \<not> skip_import all_stages \<and>
   map_of (fs (pworld (init_state world_slow))) ''ALL_QUOTES.json'' = None \<and>
   import_to_postgres ''ALL_QUOTES.json'' False world_slow = (zero_stats, world_slow) \<and>
   run_import_stage all_stages (init_state world_slow) = (False, init_state world_slow)"
proof -
  have m: "map_of (fs world_slow) ''ALL_QUOTES.json'' = None"
    by (simp add: world_slow_def)
  from import_missing_corpus [of world_slow "''ALL_QUOTES.json''" False all_stages
                                 "init_state world_slow"] m
  show ?thesis by (simp add: all_stages_simps init_state_def)
qed

section \<open>Properties of the orchestrator\<close>

lemma run_process_keeps:
  "db_url (run_process s w) = db_url w" "db (run_process s w) = db w"
  "programs (run_process s w) = programs w" "db_reachable (run_process s w) = db_reachable w"
  by (simp_all add: run_process_def)

lemma harvest_step_keeps:
  "db_url (pworld (harvest_step sc n ps)) = db_url (pworld ps)"
  "db (pworld (harvest_step sc n ps)) = db (pworld ps)"
  by (simp_all add: harvest_step_def run_process_keeps split: option.splits)

lemma harvest_loop_keeps:
  "db_url (pworld (harvest_loop sc ns ps)) = db_url (pworld ps) \<and>
   db (pworld (harvest_loop sc ns ps)) = db (pworld ps)"
  by (induction ns arbitrary: ps) (simp_all add: harvest_step_keeps)

lemma harvest_stage_keeps:
  "db_url (pworld (snd (run_harvest_stage sc p ps))) = db_url (pworld ps)"
  "db (pworld (snd (run_harvest_stage sc p ps))) = db (pworld ps)"
  by (simp_all add: run_harvest_stage_def Let_def harvest_loop_keeps)

lemma merge_stage_keeps:
  "db_url (pworld (snd (run_merge_stage p ps))) = db_url (pworld ps)"
  "db (pworld (snd (run_merge_stage p ps))) = db (pworld ps)"
  "harvest (snd (run_merge_stage p ps)) = harvest ps"
  by (simp_all add: run_merge_stage_def split: option.splits)

lemma import_without_db_url:
  "db_url w = None \<Longrightarrow>
   saved (fst (import_to_postgres f c w)) = 0 \<and> skipped (fst (import_to_postgres f c w)) = 0 \<and>
   errors (fst (import_to_postgres f c w)) = 0 \<and> snd (import_to_postgres f c w) = w"
  by (simp add: import_to_postgres_def can_connect_def zero_stats_def split: option.splits)

lemma import_stage_without_db_url:
  assumes "db_url (pworld ps) = None" and "\<not> skip_import p"
  shows "\<not> fst (run_import_stage p ps)"
    and "pworld (snd (run_import_stage p ps)) = pworld ps"
    and "harvest (snd (run_import_stage p ps)) = harvest ps"
  using assms import_without_db_url [of "pworld ps" "''ALL_QUOTES.json''" "clear_db p"]
  by (simp_all add: run_import_stage_def Let_def)

text \<open>
  The run in terms of its stages: the merge stage follows the harvest stage
  whatever that returned, and the import stage follows a successful merge.
\<close>

lemma run_by_stages:
  "let h = run_harvest_stage sc p (init_state w);
       m = run_merge_stage p (snd h);
       i = run_import_stage p (snd m)
   in (main_exit sc p w \<noteq> 0 \<longleftrightarrow> \<not> stats_only p \<and> (\<not> fst m \<or> \<not> fst i)) \<and>
      (\<not> stats_only p \<longrightarrow> snd (run sc p (init_state w)) = (if fst m then snd i else snd m))"
  by (simp add: main_exit_def run_def run_after_merge_def Let_def)

lemma merge_stage_result:
  "fst (run_merge_stage p ps) \<longleftrightarrow>
     skip_merge p \<or>
     (snd (merge_files (merge_inputs merge_excluded (fs (pworld ps))) ({}, [])) \<noteq> [] \<and>
      fs_writable (pworld ps))"
  by (simp add: run_merge_stage_def merge_quotes_def Let_def)

lemma import_stage_result:
  "fst (run_import_stage p ps) \<longleftrightarrow>
     skip_import p \<or>
     (map_of (fs (pworld ps)) ''ALL_QUOTES.json'' \<noteq> None \<and>
      (0 < saved (fst (import_to_postgres ''ALL_QUOTES.json'' (clear_db p) (pworld ps))) \<or>
       0 < skipped (fst (import_to_postgres ''ALL_QUOTES.json'' (clear_db p) (pworld ps)))))"
  by (simp add: run_import_stage_def Let_def)

text \<open>
  C5 (as the code has it). The process exits with a non-zero code exactly when
  the run is not a statistics-only run and a stage reports failure: the merge
  stage, when it is not skipped and merged nothing or cannot write its output;
  or the import stage, when it is not skipped and the corpus file is missing or
  the importer saved no row and skipped no record. The outcome of the harvest
  stage does not enter.
\<close>

theorem pipeline_exit_code:
  "let h = snd (run_harvest_stage sc p (init_state w));
       merged = snd (merge_files (merge_inputs merge_excluded (fs (pworld h))) ({}, []));
       m = snd (run_merge_stage p h);
       st = fst (import_to_postgres ''ALL_QUOTES.json'' (clear_db p) (pworld m))
   in (main_exit sc p w \<noteq> 0 \<longleftrightarrow>
         \<not> stats_only p \<and>
         (\<not> skip_merge p \<and> (merged = [] \<or> \<not> fs_writable (pworld h)) \<or>
          \<not> skip_import p \<and>
            (map_of (fs (pworld m)) ''ALL_QUOTES.json'' = None \<or>
             saved st = 0 \<and> skipped st = 0)))"
  unfolding Let_def main_exit_def run_def run_after_merge_def
  using merge_stage_result [of p "snd (run_harvest_stage sc p (init_state w))"]
        import_stage_result [of p "snd (run_merge_stage p (snd (run_harvest_stage sc p (init_state w))))"]
  by auto

theorem pipeline_exit_code_witness:
  "\<not> stats_only all_stages \<and>
   \<not> fst (run_harvest_stage no_scrapers all_stages (init_state world_no_scripts)) \<and>
   main_exit no_scrapers all_stages world_no_scripts = 0"
proof -
  have w: "fs_writable world_no_scripts"
    by (simp add: world_no_scripts_def)
  have s: "saved (fst (import_to_postgres ''ALL_QUOTES.json'' False
                        (world_no_scripts\<lparr>fs := merged_a\<rparr>))) = 1"
    by (simp add: import_merged)
  from pipeline_exit_code [of no_scrapers all_stages world_no_scripts]
  show ?thesis
    unfolding Let_def harvest_none snd_conv init_state_simps merged_a_not_empty merge_none(2)
    by (simp add: all_stages_simps w merged_a_corpus s harvest_none)
qed

text \<open>
  C5 as stated fails when a fatal failure of the import stage means a missing
  corpus or a store that cannot be reached. In the run below the merge stage
  succeeds, the corpus file is there and the store answers; the only record is
  rejected on insert, nothing is saved or skipped, and the process exits with
  code 1.
\<close>

theorem pipeline_exit_code_counterexample:
  "main_exit no_scrapers all_stages world_only_b = 1 \<and>
   fst (run_merge_stage all_stages
          (snd (run_harvest_stage no_scrapers all_stages (init_state world_only_b)))) \<and>
   map_of (fs (world_only_b\<lparr>fs := merged_b\<rparr>)) ''ALL_QUOTES.json'' = Some (Json [Rec quote_b]) \<and>
   can_connect (world_only_b\<lparr>fs := merged_b\<rparr>) \<and>
   import_to_postgres ''ALL_QUOTES.json'' False (world_only_b\<lparr>fs := merged_b\<rparr>) =
     (\<lparr>loaded = 1, saved = 0, skipped = 0, errors = 1\<rparr>, world_only_b\<lparr>fs := merged_b\<rparr>)"
proof -
  have "main_exit no_scrapers all_stages world_only_b = 1"
    unfolding main_exit_def run_def run_after_merge_def harvest_only_b snd_conv
    by (simp add: all_stages_simps merge_only_b import_stage_only_b)
  moreover have "can_connect (world_only_b\<lparr>fs := merged_b\<rparr>)"
    by (simp add: can_connect_def world_only_b_def ascii_def)
  ultimately show ?thesis
    by (simp add: harvest_only_b merge_only_b merged_b_corpus import_only_b)
qed

text \<open>
  C6 (as the code has it). \<open>DB_URL\<close> is read only when a connection is opened.
  When it is absent, the harvest and merge stages run as usual; the import stage,
  when it is not skipped, finds nothing saved and nothing skipped and reports
  failure, so the process exits with code 1, with the files and the store as the
  merge stage left them.
\<close>

theorem missing_db_url_fails_at_import:
  assumes "db_url w = None" and "\<not> stats_only p" and "\<not> skip_import p"
  shows "main_exit sc p w = 1 \<and>
         pworld (snd (run sc p (init_state w))) =
           pworld (snd (run_merge_stage p (snd (run_harvest_stage sc p (init_state w))))) \<and>
         harvest (snd (run sc p (init_state w))) =
           harvest (snd (run_harvest_stage sc p (init_state w)))"
proof -
  let ?m = "run_merge_stage p (snd (run_harvest_stage sc p (init_state w)))"
  have "db_url (pworld (snd ?m)) = None"
    using assms(1) by (simp add: merge_stage_keeps harvest_stage_keeps init_state_def)
  from import_stage_without_db_url [OF this assms(3)] assms(2)
  show ?thesis
    by (simp add: main_exit_def run_def run_after_merge_def Let_def merge_stage_keeps)
qed

theorem missing_db_url_fails_at_import_witness:
  "db_url world_no_db_url = None \<and> \<not> stats_only all_stages \<and> \<not> skip_import all_stages \<and>
   main_exit no_scrapers all_stages world_no_db_url = 1"
proof -
  have h: "db_url world_no_db_url = None" by (simp add: world_no_db_url_def)
  from missing_db_url_fails_at_import [OF h all_stages_simps(5) all_stages_simps(3), of no_scrapers]
  show ?thesis by (simp add: h all_stages_simps)
qed

text \<open>
  C6 as stated fails: without \<open>DB_URL\<close> the run below harvests one script and
  writes the merged corpus before it exits with code 1.
\<close>

theorem missing_db_url_counterexample:
  "db_url world_no_db_url = None \<and>
   main_exit no_scrapers all_stages world_no_db_url = 1 \<and>
   h_success (harvest (snd (run no_scrapers all_stages (init_state world_no_db_url)))) = 1 \<and>
   fs (pworld (snd (run no_scrapers all_stages (init_state world_no_db_url)))) = merged_a"
proof -
  have "run no_scrapers all_stages (init_state world_no_db_url) =
     (False, \<lparr>pworld = world_no_db_url\<lparr>fs := merged_a\<rparr>,
              harvest = zero_hstats\<lparr>h_total := 1, h_success := 1\<rparr>,
              merge_output_quotes = 1, import_stats = zero_stats\<lparr>loaded := 1\<rparr>\<rparr>)"
    unfolding run_def run_after_merge_def harvest_demo snd_conv merge_demo fst_conv import_demo Let_def
    by (simp add: all_stages_simps)
  then show ?thesis
    by (simp add: main_exit_def world_no_db_url_def zero_hstats_def)
qed

text \<open>
  C7 (as the code has it). A script that needs more than 3600 seconds is cut off
  and reported as \<open>(False, "Timeout", 0, [])\<close>; the stage counts it as failed,
  whatever it had collected, never as a success or as an acceptable skip.
\<close>

theorem timeout_counts_as_failure:
  assumes "3600 < duration s" and "launch_error s = None"
  shows "run_harvest_script sc s = (False, ascii ''Timeout'', 0, []) \<and>
         count_result name (run_harvest_script sc s) st =
           st\<lparr>h_failed := h_failed st + 1,
              h_errors := h_errors st @ [Failure name (ascii ''Timeout'') []]\<rparr>"
proof -
  have "\<not> contains (ascii ''Acceptable'') (ascii ''Timeout'')"
    by (simp add: ascii_def starts_with_def)
  with assms show ?thesis
    by (simp add: run_harvest_script_def count_result_def)
qed

theorem timeout_counts_as_failure_witness:
  "3600 < duration slow_script \<and> launch_error slow_script = None \<and>
   run_harvest_script no_scrapers slow_script = (False, ascii ''Timeout'', 0, []) \<and>
   h_failed (count_result ''harvest_slow.py'' (run_harvest_script no_scrapers slow_script)
               zero_hstats) = 1"
proof -
  have d: "3600 < duration slow_script" and l: "launch_error slow_script = None"
    by (simp_all add: slow_script_def)
  from timeout_counts_as_failure [OF d l, of no_scrapers "''harvest_slow.py''" zero_hstats]
  show ?thesis by (auto simp: d l zero_hstats_def)
qed

text \<open>
  C7 as stated fails: a script that times out having written nothing is counted
  as failed, not as an acceptable skip.
\<close>

theorem timeout_counterexample:
  "writes slow_script = [] \<and>
   harvest (snd (run_harvest_stage no_scrapers all_stages (init_state world_slow))) =
     zero_hstats\<lparr>h_total := 1, h_failed := 1,
                h_errors := [Failure ''harvest_slow.py'' (ascii ''Timeout'') []]\<rparr>"
proof -
  have t: "run_harvest_script no_scrapers slow_script = (False, ascii ''Timeout'', 0, [])"
    by (simp add: run_harvest_script_def slow_script_def)
  have c: "\<not> contains (ascii ''Acceptable'') (ascii ''Timeout'')"
    by (simp add: ascii_def starts_with_def)
  have m: "map_of (programs world_slow) ''harvest_slow.py'' = Some slow_script"
    by (simp add: world_slow_def)
  show ?thesis
    unfolding run_harvest_stage_def init_state_simps slow_found Let_def
    by (simp add: all_stages_simps harvest_step_def init_state_simps m t c count_result_def)
       (simp add: zero_hstats_def slow_script_def)
qed

section \<open>Properties of the harvesters\<close>











end
